theory Spec2Isabelle
  imports Main "HOL-Library.Log_Nat"
begin

section \<open>JavaScript numbers and JSON values\<close>

text \<open>
  A JavaScript Number is an IEEE 754 double: a finite value (kept as the rational it
  denotes; the two zeros are not told apart), an infinity, or NaN. The sum of two finite
  doubles is the exact sum rounded to the nearest double, ties to the even significand:
  53 significant bits, the least exponent of the last place \<open>-1074\<close>, overflow from
  \<open>2 ^ 1024\<close>.
\<close>

datatype number = Num rat | Infinity | Minus_Infinity | NaN

definition pow2 :: "int \<Rightarrow> rat" where
  "pow2 p = (if 0 \<le> p then 2 ^ nat p else 1 / 2 ^ nat (- p))"

definition round_even :: "rat \<Rightarrow> int" where
  "round_even x =
     (let f = \<lfloor>x\<rfloor>; d = x - of_int f
      in if d < 1 / 2 then f else if 1 / 2 < d then f + 1 else if even f then f else f + 1)"

text \<open>For \<open>0 < q\<close>, the exponent \<open>k\<close> with \<open>2 ^ k \<le> q < 2 ^ (k + 1)\<close>.\<close>

definition floor_log2 :: "rat \<Rightarrow> int" where
  "floor_log2 q = (if 1 \<le> q then bitlen \<lfloor>q\<rfloor> - 1 else - bitlen (\<lceil>1 / q\<rceil> - 1))"

text \<open>The double nearest to a positive rational; \<open>None\<close> when it overflows.\<close>

definition round_pos :: "rat \<Rightarrow> rat option" where
  "round_pos q =
     (let p = max (floor_log2 q - 52) (- 1074);
          r = of_int (round_even (q / pow2 p)) * pow2 p
      in if pow2 1024 \<le> r then None else Some r)"

definition round_double :: "rat \<Rightarrow> number" where
  "round_double q =
     (if q = 0 then Num 0
      else if 0 < q then (case round_pos q of None \<Rightarrow> Infinity | Some r \<Rightarrow> Num r)
      else (case round_pos (- q) of None \<Rightarrow> Minus_Infinity | Some r \<Rightarrow> Num (- r)))"

text \<open>\<^verbatim>\<open>x + y\<close> and \<^verbatim>\<open>x < y\<close> on Numbers.\<close>

fun js_add :: "number \<Rightarrow> number \<Rightarrow> number" where
  "js_add NaN y = NaN"
| "js_add x NaN = NaN"
| "js_add Infinity Minus_Infinity = NaN"
| "js_add Minus_Infinity Infinity = NaN"
| "js_add Infinity y = Infinity"
| "js_add x Infinity = Infinity"
| "js_add Minus_Infinity y = Minus_Infinity"
| "js_add x Minus_Infinity = Minus_Infinity"
| "js_add (Num x) (Num y) = round_double (x + y)"


text \<open>
  A field of a JSON body: absent, \<^verbatim>\<open>null\<close>, a boolean, a number, a string, or an array or
  object (kept as the string JavaScript converts it to when it is an operand of \<^verbatim>\<open>+\<close>).
\<close>

datatype json =
  J_absent | J_null | J_bool bool | J_number number | J_string string | J_structured string

text \<open>What \<^verbatim>\<open>+\<close> yields: a Number or a string.\<close>

datatype primitive = P_number number | P_string string

section \<open>Documents of the entity store\<close>

text \<open>
  The three Mongoose models of \<^verbatim>\<open>index.js\<close> (\<^verbatim>\<open>User\<close>, \<^verbatim>\<open>Campaign\<close>,
  \<^verbatim>\<open>Transaction\<close>) as records. Object ids and references are the strings the handlers
  pass around. A field the handlers guard against being absent is an \<open>option\<close>
  (\<^verbatim>\<open>campaign.raisedAmount || 0\<close>, \<^verbatim>\<open>Array.isArray(user.backedCampaigns)\<close>).
  The raised amount is a Number; a transaction keeps the amount as the request gave it to
  \<^verbatim>\<open>Transaction.create\<close>; the goal amount, which takes part in no arithmetic, is an
  integer.
\<close>

record user =
  u_id :: string
  u_username :: "string option"
  u_email :: string
  u_password :: string
  u_role :: string
  u_backedCampaigns :: "string list option"

record campaign =
  c_id :: string
  c_title :: string
  c_description :: string
  c_goalAmount :: int
  c_raisedAmount :: "number option"
  c_deadline :: string
  c_category :: "string option"
  c_image :: string
  c_status :: string
  c_owner :: string
  c_supporters :: "string list"

record transaction =
  t_id :: string
  t_user :: string
  t_campaign :: string
  t_amount :: json
  t_provider :: "string option"
  t_status :: string
  t_message :: string
  t_paymentId :: string
  t_createdAt :: int

text \<open>The identity \<^verbatim>\<open>req.user\<close> that the token carries: \<^verbatim>\<open>{id, username, role}\<close>.\<close>

record identity =
  ru_id :: string
  ru_username :: "string option"
  ru_role :: string

text \<open>Events handed to the Socket.IO server: \<^verbatim>\<open>io.emit\<close> and \<^verbatim>\<open>io.to(room).emit\<close>.\<close>

datatype event =
  New_campaign string "string option" "string option" int
| New_backing string string "string option" json "string option"

text \<open>
  The state the handlers read and write: the three collections, and the events emitted
  so far.
\<close>

record state =
  users :: "user list"
  campaigns :: "campaign list"
  transactions :: "transaction list"
  emitted :: "event list"

section \<open>The libraries the handlers call\<close>

text \<open>
  Every awaited store call stands inside a \<^verbatim>\<open>try\<close> block: it can reject (the connection,
  the validation of the model's schema), and the handler's \<^verbatim>\<open>catch\<close> answers 500. The
  environment says which calls reject during a request, and gives what the libraries
  and the language compute: the cast of an id string to an ObjectId (\<open>None\<close> when the
  string is not well-formed, otherwise the hex string of the ObjectId, which is how ids
  are stored: two spellings of one ObjectId have the same cast), \<^verbatim>\<open>bcrypt.hash\<close> and
  \<^verbatim>\<open>bcrypt.compare\<close> on strings, \<^verbatim>\<open>jwt.sign\<close>, the time of \<^verbatim>\<open>new Date(s)\<close> in
  milliseconds (\<open>None\<close> for an invalid date), the clock, the fresh \<^verbatim>\<open>_id\<close> and
  \<^verbatim>\<open>uuidv4()\<close> of the request, and the conversions between Numbers and strings
  (\<^verbatim>\<open>String(x)\<close>, \<^verbatim>\<open>Number(s)\<close>).
\<close>

datatype store_op =
  User_findOne_op | User_create_op | User_findById_op | User_save_op
| User_findByIdAndDelete_op
| Campaign_findOne_op | Campaign_create_op | Campaign_findById_op | Campaign_save_op
| Campaign_findByIdAndDelete_op
| Transaction_create_op | Transaction_find_op

datatype error = CastError | ValidationError | StoreError | IllegalArguments

record env =
  rejects :: "store_op \<Rightarrow> bool"
  objectid_cast :: "string \<Rightarrow> string option"
  bcrypt_hash_str :: "string \<Rightarrow> string"
  bcrypt_compare_str :: "string \<Rightarrow> string \<Rightarrow> bool"
  jwt_sign :: "identity \<Rightarrow> string"
  date_parse :: "string \<Rightarrow> int option"
  date_now :: int
  new_id :: string
  uuidv4 :: string
  number_toString :: "number \<Rightarrow> string"
  string_toNumber :: "string \<Rightarrow> number"

text \<open>
  \<^verbatim>\<open>mongoose.Types.ObjectId.isValid(id)\<close>: the string casts to an ObjectId.
\<close>

definition objectid_isValid :: "env \<Rightarrow> string \<Rightarrow> bool" where
  "objectid_isValid e i = (objectid_cast e i \<noteq> None)"

section \<open>Responses\<close>

datatype body =
  Message string
| Message_campaign string campaign
| Message_transaction string transaction
| Campaign_doc campaign "(string option \<times> string) option"
| Transaction_docs "(transaction \<times> string option option) list"

record response =
  status :: nat
  body :: body
  cookie :: "string option"

definition respond :: "nat \<Rightarrow> string \<Rightarrow> response" where
  "respond st m = \<lparr>status = st, body = Message m, cookie = None\<rparr>"

section \<open>Store calls\<close>

text \<open>
  A query by id casts the string first (a \<^verbatim>\<open>CastError\<close> when that fails) and matches the
  document whose id is the ObjectId. \<^verbatim>\<open>save()\<close> validates the document: a field whose cast
  failed when it was assigned makes it reject.
\<close>

definition Campaign_findById :: "env \<Rightarrow> state \<Rightarrow> string \<Rightarrow> error + campaign option" where
  "Campaign_findById e s i =
     (case objectid_cast e i of
        None \<Rightarrow> Inl CastError
      | Some j \<Rightarrow>
          if rejects e Campaign_findById_op then Inl StoreError
          else Inr (find (\<lambda>c. c_id c = j) (campaigns s)))"

definition Campaign_save :: "env \<Rightarrow> state \<Rightarrow> error + campaign \<Rightarrow> error + state" where
  "Campaign_save e s doc =
     (case doc of
        Inl err \<Rightarrow> Inl ValidationError
      | Inr c \<Rightarrow>
          if rejects e Campaign_save_op then Inl StoreError
          else Inr (s\<lparr>campaigns := map (\<lambda>d. if c_id d = c_id c then c else d) (campaigns s)\<rparr>))"

definition Transaction_create :: "env \<Rightarrow> state \<Rightarrow> transaction \<Rightarrow> error + transaction \<times> state" where
  "Transaction_create e s t =
     (if rejects e Transaction_create_op then Inl StoreError
      else Inr (t, s\<lparr>transactions := transactions s @ [t]\<rparr>))"

definition User_findById :: "env \<Rightarrow> state \<Rightarrow> string \<Rightarrow> error + user option" where
  "User_findById e s i =
     (case objectid_cast e i of
        None \<Rightarrow> Inl CastError
      | Some j \<Rightarrow>
          if rejects e User_findById_op then Inl StoreError
          else Inr (find (\<lambda>u. u_id u = j) (users s)))"

definition User_save :: "env \<Rightarrow> state \<Rightarrow> user \<Rightarrow> error + state" where
  "User_save e s u =
     (if rejects e User_save_op then Inl StoreError
      else Inr (s\<lparr>users := map (\<lambda>v. if u_id v = u_id u then u else v) (users s)\<rparr>))"

section \<open>POST /transactions\<close>

text \<open>
  The body \<^verbatim>\<open>{ campaignId, amount, message }\<close>. The handler does not look at the amount
  before it uses it, so it is any JSON value; the message may be absent.
\<close>

record transactions_body =
  tb_campaignId :: string
  tb_amount :: json
  tb_message :: "string option"

text \<open>
  \<^verbatim>\<open>x || 0\<close> on a Number that may be absent (0 and NaN are falsy), and
  \<^verbatim>\<open>message || ""\<close>.
\<close>

definition or_zero :: "number option \<Rightarrow> number" where
  "or_zero x = (case x of None \<Rightarrow> Num 0 | Some n \<Rightarrow> if n = Num 0 \<or> n = NaN then Num 0 else n)"

definition or_empty :: "string option \<Rightarrow> string" where
  "or_empty x = (case x of None \<Rightarrow> [] | Some m \<Rightarrow> if m = [] then [] else m)"

text \<open>
  \<^verbatim>\<open>x + amount\<close> for a Number \<^verbatim>\<open>x\<close>: a string or structured operand makes it a
  concatenation of strings; otherwise the operand is converted to a Number
  (\<^verbatim>\<open>undefined\<close> to NaN, \<^verbatim>\<open>null\<close> to 0, \<^verbatim>\<open>true\<close> to 1) and the Numbers are added.
\<close>

definition js_plus :: "env \<Rightarrow> number \<Rightarrow> json \<Rightarrow> primitive" where
  "js_plus e x amount =
     (case amount of
        J_absent \<Rightarrow> P_number NaN
      | J_null \<Rightarrow> P_number (js_add x (Num 0))
      | J_bool v \<Rightarrow> P_number (js_add x (Num (if v then 1 else 0)))
      | J_number y \<Rightarrow> P_number (js_add x y)
      | J_string t \<Rightarrow> P_string (number_toString e x @ t)
      | J_structured t \<Rightarrow> P_string (number_toString e x @ t))"

text \<open>
  Modelled from the spec: the Campaign schema, which is not among the sources. The spec
  gives the raised amount as numeric, a Mongoose path of type Number: assigning to it casts
  the value, NaN and a string that is no number fail the cast, the empty string becomes
  \<^verbatim>\<open>null\<close>, and a failed cast makes \<^verbatim>\<open>save()\<close> reject.
\<close>

definition cast_Number :: "env \<Rightarrow> primitive \<Rightarrow> error + number option" where
  "cast_Number e v =
     (case v of
        P_number n \<Rightarrow> if n = NaN then Inl CastError else Inr (Some n)
      | P_string t \<Rightarrow>
          if t = [] then Inr None
          else if string_toNumber e t = NaN then Inl CastError
          else Inr (Some (string_toNumber e t)))"

text \<open>
  Lines 264 to 269: the new total and the supporter, on the loaded document; \<open>Inl\<close> when
  the total did not cast.
\<close>

definition add_backing :: "env \<Rightarrow> campaign \<Rightarrow> string \<Rightarrow> json \<Rightarrow> error + campaign" where
  "add_backing e c uid amount =
     (case cast_Number e (js_plus e (or_zero (c_raisedAmount c)) amount) of
        Inl err \<Rightarrow> Inl err
      | Inr raised \<Rightarrow>
          (let c1 = c\<lparr>c_raisedAmount := raised\<rparr>
           in Inr (if uid \<in> set (c_supporters c1) then c1
                   else c1\<lparr>c_supporters := c_supporters c1 @ [uid]\<rparr>)))"

text \<open>
  Lines 288 to 298: the user's \<^verbatim>\<open>backedCampaigns\<close>. A user that is not found is skipped;
  the document is saved only when the campaign was appended. The arrays of supporters and
  of backed campaigns hold the id strings as the handler compares and pushes them.
\<close>

definition update_backedCampaigns :: "env \<Rightarrow> state \<Rightarrow> string \<Rightarrow> string \<Rightarrow> error + state" where
  "update_backedCampaigns e s uid campaignId =
     (case User_findById e s uid of
        Inl err \<Rightarrow> Inl err
      | Inr None \<Rightarrow> Inr s
      | Inr (Some u) \<Rightarrow>
          (let backed = (case u_backedCampaigns u of None \<Rightarrow> [] | Some bs \<Rightarrow> bs)
           in if campaignId \<in> set backed then Inr s
              else User_save e s (u\<lparr>u_backedCampaigns := Some (backed @ [campaignId])\<rparr>)))"

text \<open>
  Lines 275 to 283: the document given to \<^verbatim>\<open>Transaction.create\<close>. Its reference to the
  campaign is stored as the ObjectId that \<^verbatim>\<open>campaignId\<close> casts to, the id of the campaign
  the lookup found.
\<close>

definition new_transaction ::
  "env \<Rightarrow> identity \<Rightarrow> transactions_body \<Rightarrow> string \<Rightarrow> transaction" where
  "new_transaction e usr b campaign_id =
     \<lparr>t_id = new_id e, t_user = ru_id usr, t_campaign = campaign_id,
      t_amount = tb_amount b, t_provider = ru_username usr, t_status = ''completed'',
      t_message = or_empty (tb_message b), t_paymentId = uuidv4 e,
      t_createdAt = date_now e\<rparr>"

definition transactions_post ::
  "env \<Rightarrow> state \<Rightarrow> identity option \<Rightarrow> transactions_body \<Rightarrow> response \<times> state" where
  "transactions_post e s ru b =
     (case ru of
        None \<Rightarrow> (respond 401 ''Unauthorized. Invalid token.'', s)
      | Some usr \<Rightarrow>
          if ru_id usr = [] then (respond 401 ''Unauthorized. Invalid token.'', s)
          else
            (case Campaign_findById e s (tb_campaignId b) of
               Inl err \<Rightarrow> (respond 500 ''Server error during transaction'', s)
             | Inr None \<Rightarrow> (respond 404 ''Campaign not found'', s)
             | Inr (Some c) \<Rightarrow>
                 (case Campaign_save e s (add_backing e c (ru_id usr) (tb_amount b)) of
                    Inl err \<Rightarrow> (respond 500 ''Server error during transaction'', s)
                  | Inr s1 \<Rightarrow>
                      (case Transaction_create e s1 (new_transaction e usr b (c_id c)) of
                         Inl err \<Rightarrow> (respond 500 ''Server error during transaction'', s1)
                       | Inr (t, s2) \<Rightarrow>
                           (case update_backedCampaigns e s2 (ru_id usr) (tb_campaignId b) of
                              Inl err \<Rightarrow> (respond 500 ''Server error during transaction'', s2)
                            | Inr s3 \<Rightarrow>
                                (\<lparr>status = 201,
                                  body = Message_transaction ''Transaction successful'' t,
                                  cookie = None\<rparr>,
                                 s3\<lparr>emitted := emitted s3 @
                                    [New_backing (c_owner c) (tb_campaignId b)
                                       (ru_username usr) (tb_amount b) (tb_message b)]\<rparr>))))))"

section \<open>POST /register and POST /login\<close>

definition User_findOne :: "env \<Rightarrow> state \<Rightarrow> string \<Rightarrow> error + user option" where
  "User_findOne e s email =
     (if rejects e User_findOne_op then Inl StoreError
      else Inr (find (\<lambda>u. u_email u = email) (users s)))"

definition User_create :: "env \<Rightarrow> state \<Rightarrow> user \<Rightarrow> error + user \<times> state" where
  "User_create e s u =
     (if rejects e User_create_op then Inl StoreError
      else Inr (u, s\<lparr>users := users s @ [u]\<rparr>))"

text \<open>
  \<^verbatim>\<open>bcrypt.hash(password, 10)\<close> and \<^verbatim>\<open>bcrypt.compare(password, hash)\<close> reject a password
  that is not a string (\<open>None\<close>: the field is absent from the body).
\<close>

definition bcrypt_hash :: "env \<Rightarrow> string option \<Rightarrow> error + string" where
  "bcrypt_hash e password =
     (case password of None \<Rightarrow> Inl IllegalArguments | Some p \<Rightarrow> Inr (bcrypt_hash_str e p))"

definition bcrypt_compare :: "env \<Rightarrow> string option \<Rightarrow> string \<Rightarrow> error + bool" where
  "bcrypt_compare e password h =
     (case password of None \<Rightarrow> Inl IllegalArguments | Some p \<Rightarrow> Inr (bcrypt_compare_str e p h))"

definition generateToken :: "env \<Rightarrow> user \<Rightarrow> string" where
  "generateToken e u =
     jwt_sign e \<lparr>ru_id = u_id u, ru_username = u_username u, ru_role = u_role u\<rparr>"

definition allowedRoles :: "string list" where
  "allowedRoles = [''backer'', ''campaignOwner'']"

record register_body =
  rb_username :: "string option"
  rb_email :: string
  rb_password :: "string option"
  rb_role :: "string option"

definition register :: "env \<Rightarrow> state \<Rightarrow> register_body \<Rightarrow> response \<times> state" where
  "register e s b =
     (case User_findOne e s (rb_email b) of
        Inl err \<Rightarrow> (respond 500 ''Server error'', s)
      | Inr (Some exists) \<Rightarrow> (respond 400 ''Email already registered'', s)
      | Inr None \<Rightarrow>
          (case bcrypt_hash e (rb_password b) of
             Inl err \<Rightarrow> (respond 500 ''Server error'', s)
           | Inr hashedPassword \<Rightarrow>
               (case rb_role b of
                  None \<Rightarrow> (respond 400 ''Invalid role selected'', s)
                | Some role \<Rightarrow>
                    if role \<notin> set allowedRoles
                    then (respond 400 ''Invalid role selected'', s)
                    else
                      (case User_create e s
                              \<lparr>u_id = new_id e, u_username = rb_username b,
                               u_email = rb_email b, u_password = hashedPassword,
                               u_role = role, u_backedCampaigns = Some []\<rparr> of
                         Inl err \<Rightarrow> (respond 500 ''Server error'', s)
                       | Inr (u, s1) \<Rightarrow>
                           (\<lparr>status = 201, body = Message ''Registered successfully'',
                             cookie = Some (generateToken e u)\<rparr>, s1)))))"

record login_body =
  lb_email :: string
  lb_password :: "string option"

definition login :: "env \<Rightarrow> state \<Rightarrow> login_body \<Rightarrow> response \<times> state" where
  "login e s b =
     (case User_findOne e s (lb_email b) of
        Inl err \<Rightarrow> (respond 500 ''Server error'', s)
      | Inr None \<Rightarrow> (respond 400 ''Invalid email or password'', s)
      | Inr (Some u) \<Rightarrow>
          (case bcrypt_compare e (lb_password b) (u_password u) of
             Inl err \<Rightarrow> (respond 500 ''Server error'', s)
           | Inr isMatch \<Rightarrow>
               if \<not> isMatch then (respond 400 ''Invalid email or password'', s)
               else (\<lparr>status = 200, body = Message ''Login successful'',
                      cookie = Some (generateToken e u)\<rparr>, s)))"

section \<open>POST /campaigns\<close>

record campaigns_body =
  cb_title :: "string option"
  cb_description :: "string option"
  cb_goalAmount :: "int option"
  cb_deadline :: "string option"
  cb_category :: "string option"
  cb_image :: "string option"

text \<open>
  Line 162: the five required fields, when each is truthy (a string that is present and
  not empty, a number that is present and not 0).
\<close>

definition required_fields ::
  "campaigns_body \<Rightarrow> (string \<times> string \<times> int \<times> string \<times> string) option" where
  "required_fields b =
     (case cb_title b of None \<Rightarrow> None | Some title \<Rightarrow>
      case cb_description b of None \<Rightarrow> None | Some description \<Rightarrow>
      case cb_goalAmount b of None \<Rightarrow> None | Some goalAmount \<Rightarrow>
      case cb_deadline b of None \<Rightarrow> None | Some deadline \<Rightarrow>
      case cb_image b of None \<Rightarrow> None | Some img \<Rightarrow>
        if title = [] \<or> description = [] \<or> goalAmount = 0 \<or> deadline = [] \<or> img = []
        then None
        else Some (title, description, goalAmount, deadline, img))"

text \<open>
  Line 169: \<^verbatim>\<open>isNaN(deadlineDate.getTime()) || deadlineDate < new Date()\<close>.
\<close>

definition invalid_or_past :: "env \<Rightarrow> string \<Rightarrow> bool" where
  "invalid_or_past e deadline =
     (case date_parse e deadline of None \<Rightarrow> True | Some d \<Rightarrow> d < date_now e)"

definition Campaign_findOne :: "env \<Rightarrow> state \<Rightarrow> string \<Rightarrow> string \<Rightarrow> error + campaign option" where
  "Campaign_findOne e s title owner =
     (case objectid_cast e owner of
        None \<Rightarrow> Inl CastError
      | Some j \<Rightarrow>
          if rejects e Campaign_findOne_op then Inl StoreError
          else Inr (find (\<lambda>c. c_title c = title \<and> c_owner c = j) (campaigns s)))"

definition Campaign_create :: "env \<Rightarrow> state \<Rightarrow> campaign \<Rightarrow> error + campaign \<times> state" where
  "Campaign_create e s c =
     (if rejects e Campaign_create_op then Inl StoreError
      else Inr (c, s\<lparr>campaigns := campaigns s @ [c]\<rparr>))"

definition campaigns_post ::
  "env \<Rightarrow> state \<Rightarrow> identity \<Rightarrow> campaigns_body \<Rightarrow> response \<times> state" where
  "campaigns_post e s ru b =
     (if ru_role ru \<notin> set [''campaignOwner'', ''admin'']
      then (respond 403 ''Only campaign owners or admins can create campaigns'', s)
      else
        (case required_fields b of
           None \<Rightarrow> (respond 400 ''All required fields must be filled'', s)
         | Some (title, description, goalAmount, deadline, img) \<Rightarrow>
             if invalid_or_past e deadline
             then (respond 400 ''Invalid or past deadline'', s)
             else
               (case Campaign_findOne e s title (ru_id ru) of
                  Inl err \<Rightarrow> (respond 500 ''Server error while creating campaign'', s)
                | Inr (Some exists) \<Rightarrow>
                    (respond 409 ''Campaign with this title already exists'', s)
                | Inr None \<Rightarrow>
                    (case Campaign_create e s
                            \<lparr>c_id = new_id e, c_title = title, c_description = description,
                             c_goalAmount = goalAmount, c_raisedAmount = Some (Num 0),
                             c_deadline = deadline, c_category = cb_category b,
                             c_image = img, c_status = ''active'', c_owner = ru_id ru,
                             c_supporters = []\<rparr> of
                       Inl err \<Rightarrow> (respond 500 ''Server error while creating campaign'', s)
                     | Inr (c, s1) \<Rightarrow>
                         (\<lparr>status = 201,
                           body = Message_campaign ''Campaign created successfully'' c,
                           cookie = None\<rparr>,
                          s1\<lparr>emitted := emitted s1 @
                             [New_campaign (c_title c) (ru_username ru) (c_category c)
                                (c_goalAmount c)]\<rparr>)))))"

section \<open>The admin deletions\<close>

definition User_findByIdAndDelete :: "env \<Rightarrow> state \<Rightarrow> string \<Rightarrow> error + state" where
  "User_findByIdAndDelete e s i =
     (case objectid_cast e i of
        None \<Rightarrow> Inl CastError
      | Some j \<Rightarrow>
          if rejects e User_findByIdAndDelete_op then Inl StoreError
          else Inr (s\<lparr>users := filter (\<lambda>u. u_id u \<noteq> j) (users s)\<rparr>))"

definition Campaign_findByIdAndDelete :: "env \<Rightarrow> state \<Rightarrow> string \<Rightarrow> error + state" where
  "Campaign_findByIdAndDelete e s i =
     (case objectid_cast e i of
        None \<Rightarrow> Inl CastError
      | Some j \<Rightarrow>
          if rejects e Campaign_findByIdAndDelete_op then Inl StoreError
          else Inr (s\<lparr>campaigns := filter (\<lambda>c. c_id c \<noteq> j) (campaigns s)\<rparr>))"

definition admin_users_delete :: "env \<Rightarrow> state \<Rightarrow> identity \<Rightarrow> string \<Rightarrow> response \<times> state" where
  "admin_users_delete e s ru i =
     (if ru_role ru \<noteq> ''admin'' then (respond 403 ''Forbidden'', s)
      else (case User_findByIdAndDelete e s i of
              Inl err \<Rightarrow> (respond 500 ''Failed to delete user'', s)
            | Inr s1 \<Rightarrow> (respond 200 ''User deleted'', s1)))"

definition admin_campaigns_delete :: "env \<Rightarrow> state \<Rightarrow> identity \<Rightarrow> string \<Rightarrow> response \<times> state" where
  "admin_campaigns_delete e s ru i =
     (if ru_role ru \<noteq> ''admin'' then (respond 403 ''Forbidden'', s)
      else (case Campaign_findByIdAndDelete e s i of
              Inl err \<Rightarrow> (respond 500 ''Failed to delete campaign'', s)
            | Inr s1 \<Rightarrow> (respond 200 ''Campaign deleted'', s1)))"

section \<open>GET /campaigns/:id and GET /campaigns/:id/transactions\<close>

text \<open>
  \<^verbatim>\<open>populate("owner", "username email")\<close> and \<^verbatim>\<open>populate("user", "username")\<close>: the
  selected fields of the referenced user, \<open>None\<close> when no user has the id.
\<close>

definition populate_owner :: "state \<Rightarrow> campaign \<Rightarrow> (string option \<times> string) option" where
  "populate_owner s c =
     map_option (\<lambda>u. (u_username u, u_email u)) (find (\<lambda>u. u_id u = c_owner c) (users s))"

definition populate_user :: "state \<Rightarrow> transaction \<Rightarrow> string option option" where
  "populate_user s t = map_option u_username (find (\<lambda>u. u_id u = t_user t) (users s))"

text \<open>
  Of the two handlers registered for \<^verbatim>\<open>GET /campaigns/:id\<close> the first answers every
  request; the second never runs.
\<close>

definition campaigns_id_get :: "env \<Rightarrow> state \<Rightarrow> string \<Rightarrow> response" where
  "campaigns_id_get e s i =
     (if \<not> objectid_isValid e i then respond 400 ''Invalid campaign ID format''
      else (case Campaign_findById e s i of
              Inl err \<Rightarrow> respond 500 ''Internal server error''
            | Inr None \<Rightarrow> respond 404 ''Campaign not found''
            | Inr (Some c) \<Rightarrow>
                \<lparr>status = 200, body = Campaign_doc c (populate_owner s c), cookie = None\<rparr>))"

text \<open>
  \<^verbatim>\<open>Transaction.find({ campaign: id }).sort({ createdAt: -1 })\<close>: the filter casts the id,
  the matches come newest first.
\<close>

definition Transaction_find :: "env \<Rightarrow> state \<Rightarrow> string \<Rightarrow> error + transaction list" where
  "Transaction_find e s i =
     (case objectid_cast e i of
        None \<Rightarrow> Inl CastError
      | Some j \<Rightarrow>
          if rejects e Transaction_find_op then Inl StoreError
          else Inr (sort_key (\<lambda>t. - t_createdAt t)
                      (filter (\<lambda>t. t_campaign t = j) (transactions s))))"

definition campaigns_id_transactions_get :: "env \<Rightarrow> state \<Rightarrow> string \<Rightarrow> response" where
  "campaigns_id_transactions_get e s i =
     (case Transaction_find e s i of
        Inl err \<Rightarrow> respond 500 ''Failed to fetch transactions''
      | Inr ts \<Rightarrow>
          \<lparr>status = 200, body = Transaction_docs (map (\<lambda>t. (t, populate_user s t)) ts),
           cookie = None\<rparr>)"

section \<open>Reading the state\<close>




definition transactions_of :: "state \<Rightarrow> string \<Rightarrow> transaction list" where
  "transactions_of s i = filter (\<lambda>t. t_campaign t = i) (transactions s)"

text \<open>No store call of the request rejects.\<close>

definition store_ops :: "store_op list" where
  "store_ops =
     [User_findOne_op, User_create_op, User_findById_op, User_save_op,
      User_findByIdAndDelete_op, Campaign_findOne_op, Campaign_create_op,
      Campaign_findById_op, Campaign_save_op, Campaign_findByIdAndDelete_op,
      Transaction_create_op, Transaction_find_op]"

definition store_up :: "env \<Rightarrow> bool" where
  "store_up e = list_all (\<lambda>op. \<not> rejects e op) store_ops"

section \<open>A sample deployment\<close>

text \<open>
  An environment whose store answers every call, with object ids of 24 hexadecimal
  digits that cast to their lower-case spelling, and a store with a backer, a campaign
  owner and one campaign.
\<close>

definition hex24 :: "string \<Rightarrow> bool" where
  "hex24 i = (length i = 24 \<and> list_all (\<lambda>c. c \<in> set ''0123456789abcdefABCDEF'') i)"

definition lower_hex :: "char \<Rightarrow> char" where
  "lower_hex c =
     (if c = CHR ''A'' then CHR ''a'' else if c = CHR ''B'' then CHR ''b''
      else if c = CHR ''C'' then CHR ''c'' else if c = CHR ''D'' then CHR ''d''
      else if c = CHR ''E'' then CHR ''e'' else if c = CHR ''F'' then CHR ''f'' else c)"

definition env_up :: env where
  "env_up =
     \<lparr>rejects = (\<lambda>op. False),
      objectid_cast = (\<lambda>i. if hex24 i then Some (map lower_hex i) else None),
      bcrypt_hash_str = (\<lambda>p. ''$2a$10$'' @ p),
      bcrypt_compare_str = (\<lambda>p h. h = ''$2a$10$'' @ p),
      jwt_sign = (\<lambda>u. ''jwt:'' @ ru_id u),
      date_parse = (\<lambda>d. if d = ''2030-01-01T00:00:00.000Z'' then Some 1893456000000 else None),
      date_now = 1790000000000,
      new_id = ''64d000000000000000000009'',
      uuidv4 = ''3b241101-e2bb-4255-8caf-4136c566a962'',
      number_toString = (\<lambda>x. if x = Num 0 then ''0'' else if x = Num 200 then ''200'' else ''NaN''),
      string_toNumber = (\<lambda>t. if t = ''0'' then Num 0 else if t = ''200'' then Num 200 else NaN)\<rparr>"

text \<open>The same environment, with the store rejecting \<^verbatim>\<open>campaign.save()\<close>.\<close>

definition env_save_rejects :: env where
  "env_save_rejects = env_up\<lparr>rejects := (\<lambda>op. op = Campaign_save_op)\<rparr>"

definition asha_id :: string where "asha_id = ''64a000000000000000000001''"
definition ravi_id :: string where "ravi_id = ''64a000000000000000000002''"
definition well_id :: string where "well_id = ''64c000000000000000000001''"

definition asha :: user where
  "asha = \<lparr>u_id = asha_id, u_username = Some ''asha'', u_email = ''asha@example.org'',
           u_password = ''$2a$10$tulip'', u_role = ''backer'', u_backedCampaigns = Some []\<rparr>"

definition ravi :: user where
  "ravi = \<lparr>u_id = ravi_id, u_username = Some ''ravi'', u_email = ''ravi@example.org'',
           u_password = ''$2a$10$cedar'', u_role = ''campaignOwner'',
           u_backedCampaigns = Some []\<rparr>"

definition well :: campaign where
  "well = \<lparr>c_id = well_id, c_title = ''Village well'', c_description = ''A well'',
           c_goalAmount = 1000, c_raisedAmount = Some (Num 0),
           c_deadline = ''2030-01-01T00:00:00.000Z'', c_category = None,
           c_image = ''well.png'', c_status = ''active'', c_owner = ravi_id,
           c_supporters = []\<rparr>"

definition store0 :: state where
  "store0 = \<lparr>users = [asha, ravi], campaigns = [well], transactions = [], emitted = []\<rparr>"

definition asha_token :: identity where
  "asha_token = \<lparr>ru_id = asha_id, ru_username = Some ''asha'', ru_role = ''backer''\<rparr>"

definition ravi_token :: identity where
  "ravi_token = \<lparr>ru_id = ravi_id, ru_username = Some ''ravi'', ru_role = ''campaignOwner''\<rparr>"

definition admin_token :: identity where
  "admin_token = \<lparr>ru_id = ''64a000000000000000000003'', ru_username = Some ''root'',
                  ru_role = ''admin''\<rparr>"

definition back_well :: "json \<Rightarrow> transactions_body" where
  "back_well amount = \<lparr>tb_campaignId = well_id, tb_amount = amount, tb_message = None\<rparr>"

text \<open>Further requests and states of the sample deployment.\<close>

definition back_nothing :: "json \<Rightarrow> transactions_body" where
  "back_nothing amount = \<lparr>tb_campaignId = ravi_id, tb_amount = amount, tb_message = None\<rparr>"

definition asha_again :: register_body where
  "asha_again = \<lparr>rb_username = Some ''asha2'', rb_email = ''asha@example.org'',
                 rb_password = Some ''tulip'', rb_role = Some ''backer''\<rparr>"

definition admin_no_password :: register_body where
  "admin_no_password = \<lparr>rb_username = Some ''mallory'', rb_email = ''mallory@example.org'',
                        rb_password = None, rb_role = Some ''admin''\<rparr>"

definition backer_no_password :: register_body where
  "backer_no_password = \<lparr>rb_username = Some ''noor'', rb_email = ''noor@example.org'',
                         rb_password = None, rb_role = Some ''backer''\<rparr>"

definition admin_with_password :: register_body where
  "admin_with_password = \<lparr>rb_username = Some ''mallory'', rb_email = ''mallory@example.org'',
                          rb_password = Some ''orchid'', rb_role = Some ''admin''\<rparr>"

definition backer_no_username :: register_body where
  "backer_no_username = \<lparr>rb_username = None, rb_email = ''noor@example.org'',
                         rb_password = Some ''poppy'', rb_role = Some ''backer''\<rparr>"

definition well_again :: campaigns_body where
  "well_again = \<lparr>cb_title = Some ''Village well'', cb_description = Some ''Another well'',
                 cb_goalAmount = Some 500, cb_deadline = Some ''2030-01-01T00:00:00.000Z'',
                 cb_category = None, cb_image = Some ''w.png''\<rparr>"

definition pump :: campaigns_body where
  "pump = \<lparr>cb_title = Some ''Hand pump'', cb_description = Some ''A pump'',
           cb_goalAmount = Some 300, cb_deadline = Some ''2030-01-01T00:00:00.000Z'',
           cb_category = None, cb_image = Some ''pump.png''\<rparr>"

definition env_at_deadline :: env where
  "env_at_deadline = env_up\<lparr>date_now := 1893456000000\<rparr>"

definition env_after_deadline :: env where
  "env_after_deadline = env_up\<lparr>date_now := 1893456000001\<rparr>"

definition tx1 :: transaction where
  "tx1 = \<lparr>t_id = ''64e000000000000000000001'', t_user = asha_id, t_campaign = well_id,
          t_amount = J_number (Num 200), t_provider = Some ''asha'', t_status = ''completed'',
          t_message = [],
          t_paymentId = ''9f1c2d3e-0000-4000-8000-000000000001'', t_createdAt = 1780000000000\<rparr>"

definition store1 :: state where
  "store1 = \<lparr>users = [asha\<lparr>u_backedCampaigns := Some [well_id]\<rparr>, ravi],
             campaigns = [well\<lparr>c_raisedAmount := Some (Num 200), c_supporters := [asha_id]\<rparr>],
             transactions = [tx1], emitted = []\<rparr>"

text \<open>
  The campaign with a total of \<open>2 ^ 54\<close>; the campaign deleted while its transaction
  stays; the id of the campaign spelled in upper case.
\<close>

definition store_big :: state where
  "store_big = store1\<lparr>campaigns := [well\<lparr>c_raisedAmount := Some (Num (2 ^ 54)),
                                                c_supporters := [asha_id]\<rparr>]\<rparr>"

definition store_orphan :: state where
  "store_orphan = store1\<lparr>campaigns := []\<rparr>"

definition well_id_upper :: string where "well_id_upper = ''64C000000000000000000001''"

definition nobody_login :: login_body where
  "nobody_login = \<lparr>lb_email = ''nobody@example.org'', lb_password = Some ''tulip''\<rparr>"

definition asha_wrong_login :: login_body where
  "asha_wrong_login = \<lparr>lb_email = ''asha@example.org'', lb_password = Some ''daisy''\<rparr>"

section \<open>Auxiliary facts\<close>

lemma round_even_of_int: "round_even (of_int m) = m"
  by (simp add: round_even_def Let_def)

lemma round_pos_int:
  assumes "1 \<le> n" and "n \<le> 2 ^ 53"
  shows "round_pos (of_int n) = Some (of_int n)"
proof -
  have fl: "floor_log2 (of_int n) = bitlen n - 1"
    using assms(1) by (simp add: floor_log2_def)
  have small: "\<not> pow2 1024 \<le> of_int n"
  proof -
    have "n < 2 ^ 1024" using assms(2) by (rule le_less_trans) simp
    then have "(of_int n :: rat) < of_int (2 ^ 1024)" by (simp only: of_int_less_iff)
    then show ?thesis by (simp add: pow2_def)
  qed
  have step: "round_pos (of_int n) = Some (of_int n)"
    if "max (floor_log2 (of_int n) - 52) (- 1074) = p"
      and "of_int (round_even (of_int n / pow2 p)) * pow2 p = (of_int n :: rat)" for p
    unfolding round_pos_def Let_def that using small by simp
  show ?thesis
  proof (cases "n = 2 ^ 53")
    case True
    have "bitlen 1 = 1" by (simp add: bitlen_def floorlog_def)
    with True have "bitlen n = 54"
      using bitlen_pow2 [of 1 53] by simp
    then have p: "max (floor_log2 (of_int n) - 52) (- 1074) = 1" using fl by simp
    have "(of_int n :: rat) / pow2 1 = of_int (2 ^ 52)" using True by (simp add: pow2_def)
    then have "round_even (of_int n / pow2 1) = 2 ^ 52"
      by (simp only: round_even_of_int)
    then have "of_int (round_even (of_int n / pow2 1)) * pow2 1 = (of_int n :: rat)"
      using True by (simp add: pow2_def)
    with p show ?thesis by (rule step)
  next
    case False
    with assms(2) have "n < 2 ^ 53" by simp
    then have "bitlen n \<le> 53" using bitlen_le_iff_power [of n 53] by simp
    moreover have "1 \<le> bitlen n" using assms(1) bitlen_eq_zero_iff [of n] bitlen_nonneg [of n]
      by (cases "bitlen n = 0") auto
    ultimately obtain k :: nat where k: "max (floor_log2 (of_int n) - 52) (- 1074) = - int k"
      using fl by (intro that [of "nat (53 - bitlen n)"]) auto
    have "of_int n / pow2 (- int k) = (of_int (n * 2 ^ k) :: rat)"
      by (simp add: pow2_def)
    then have "round_even (of_int n / pow2 (- int k)) = n * 2 ^ k"
      by (simp only: round_even_of_int)
    then have "of_int (round_even (of_int n / pow2 (- int k))) * pow2 (- int k) = (of_int n :: rat)"
      by (simp add: pow2_def)
    with k show ?thesis by (rule step)
  qed
qed

lemma round_double_int:
  assumes "\<bar>n\<bar> \<le> 2 ^ 53"
  shows "round_double (of_int n) = Num (of_int n)"
proof -
  consider "n = 0" | "1 \<le> n" | "1 \<le> - n" by linarith
  then show ?thesis
  proof cases
    case 1
    then show ?thesis by (simp add: round_double_def)
  next
    case 2
    with assms have "round_pos (of_int n) = Some (of_int n)" by (intro round_pos_int) auto
    with 2 show ?thesis by (simp add: round_double_def)
  next
    case 3
    with assms have "round_pos (of_int (- n)) = Some (of_int (- n))" by (intro round_pos_int) auto
    with 3 show ?thesis by (simp add: round_double_def)
  qed
qed



lemma round_double_200: "round_double 200 = Num 200"
  using round_double_int [of 200] by simp




lemma hex24_ids: "hex24 asha_id" "hex24 ravi_id" "hex24 well_id" "hex24 well_id_upper"
  by (simp_all add: hex24_def asha_id_def ravi_id_def well_id_def well_id_upper_def)

lemma cast_ids:
  "objectid_cast env_up asha_id = Some asha_id" "objectid_cast env_up ravi_id = Some ravi_id"
  "objectid_cast env_up well_id = Some well_id"
  "objectid_cast env_up well_id_upper = Some well_id"
  by (simp_all add: env_up_def hex24_ids)
     (simp_all add: asha_id_def ravi_id_def well_id_def well_id_upper_def lower_hex_def)

lemma cast_ids_save_rejects:
  "objectid_cast env_save_rejects i = objectid_cast env_up i"
  "rejects env_save_rejects op = (op = Campaign_save_op)"
  by (simp_all add: env_save_rejects_def)

lemma lookup_well:
  assumes "objectid_cast e i = Some well_id" and "\<not> rejects e Campaign_findById_op"
  shows "Campaign_findById e store0 i = Inr (Some well)"
  using assms by (simp add: Campaign_findById_def store0_def well_def)

lemma store_up_op: "store_up e \<Longrightarrow> \<not> rejects e op"
  by (cases op) (simp_all add: store_up_def store_ops_def)

lemma store_up_env_up: "store_up env_up"
  by (simp add: store_up_def store_ops_def env_up_def)

lemma Campaign_save_transactions:
  "Campaign_save e s doc = Inr s1 \<Longrightarrow> transactions s1 = transactions s"
  by (auto simp: Campaign_save_def split: if_splits sum.splits)

lemma update_backedCampaigns_frame:
  "update_backedCampaigns e s u i = Inr s1 \<Longrightarrow>
     transactions s1 = transactions s \<and> campaigns s1 = campaigns s"
  by (auto simp: update_backedCampaigns_def User_findById_def User_save_def Let_def
      split: if_splits option.splits sum.splits)

lemma find_None_image: "find (\<lambda>x. k x = i) xs = None \<longleftrightarrow> i \<notin> k ` set xs"
  by (auto simp: find_None_iff)


lemma find_Some_ex: "i \<in> k ` set xs \<Longrightarrow> \<exists>x. find (\<lambda>x. k x = i) xs = Some x"
  by (cases "find (\<lambda>x. k x = i) xs") (auto simp: find_None_iff)














lemma store_big_lookup:
  assumes "objectid_cast e i = Some well_id" and "\<not> rejects e Campaign_findById_op"
  shows "Campaign_findById e store_big i =
           Inr (Some (well\<lparr>c_raisedAmount := Some (Num (2 ^ 54)), c_supporters := [asha_id]\<rparr>))"
  using assms by (simp add: Campaign_findById_def store_big_def store1_def well_def)

lemma store1_transactions_get:
  assumes "objectid_cast env_up i = Some well_id" and "users s = users store1"
    and "transactions s = transactions store1"
  shows "campaigns_id_transactions_get env_up s i =
           \<lparr>status = 200, body = Transaction_docs [(tx1, Some (Some ''asha''))], cookie = None\<rparr>"
proof -
  have nr: "\<not> rejects env_up Transaction_find_op" by (simp add: env_up_def)
  have t: "t_campaign tx1 = well_id" "t_user tx1 = asha_id" by (simp_all add: tx1_def)
  have p: "populate_user s tx1 = Some (Some ''asha'')"
    using assms(2) t by (simp add: populate_user_def store1_def asha_def)
  show ?thesis
    using assms nr t p
    by (simp add: campaigns_id_transactions_get_def Transaction_find_def store1_def)
qed

section \<open>The contribution workflow\<close>

text \<open>
  Claim C1, as the handler has it. For an authenticated request, a Transaction is created
  exactly when the lookup by \<^verbatim>\<open>campaignId\<close> returns a campaign and neither
  \<^verbatim>\<open>campaign.save()\<close> nor \<^verbatim>\<open>Transaction.create\<close> rejects; it is then the one document
  appended, with status \<^verbatim>\<open>completed\<close>. When the lookup returns a campaign and one of the
  two writes rejects, the answer is 500 \<^verbatim>\<open>Server error during transaction\<close> and the
  transactions are as before, as they are when the lookup returns no campaign or fails. A
  request without identity creates none.
\<close>

theorem transactions_post_created_iff:
  assumes "ru_id usr \<noteq> []"
  shows "transactions (snd (transactions_post e s (Some usr) b)) =
     (case Campaign_findById e s (tb_campaignId b) of
        Inr (Some c) \<Rightarrow>
          if (\<exists>s1. Campaign_save e s (add_backing e c (ru_id usr) (tb_amount b)) = Inr s1) \<and>
             \<not> rejects e Transaction_create_op
          then transactions s @ [new_transaction e usr b (c_id c)]
          else transactions s
      | _ \<Rightarrow> transactions s)
    \<and> (case Campaign_findById e s (tb_campaignId b) of
        Inr (Some c) \<Rightarrow>
          if (\<exists>s1. Campaign_save e s (add_backing e c (ru_id usr) (tb_amount b)) = Inr s1) \<and>
             \<not> rejects e Transaction_create_op
          then True
          else fst (transactions_post e s (Some usr) b) =
                 respond 500 ''Server error during transaction''
      | _ \<Rightarrow> True)
    \<and> t_status (new_transaction e usr b i) = ''completed''
    \<and> transactions (snd (transactions_post e s None b)) = transactions s"
proof -
  let ?r = "transactions_post e s (Some usr) b"
  have st: "t_status (new_transaction e usr b i) = ''completed''"
    by (simp add: new_transaction_def)
  have un: "transactions (snd (transactions_post e s None b)) = transactions s"
    by (simp add: transactions_post_def)
  have main: "transactions (snd ?r) =
     (case Campaign_findById e s (tb_campaignId b) of
        Inr (Some c) \<Rightarrow>
          if (\<exists>s1. Campaign_save e s (add_backing e c (ru_id usr) (tb_amount b)) = Inr s1) \<and>
             \<not> rejects e Transaction_create_op
          then transactions s @ [new_transaction e usr b (c_id c)]
          else transactions s
      | _ \<Rightarrow> transactions s)
    \<and> (case Campaign_findById e s (tb_campaignId b) of
        Inr (Some c) \<Rightarrow>
          if (\<exists>s1. Campaign_save e s (add_backing e c (ru_id usr) (tb_amount b)) = Inr s1) \<and>
             \<not> rejects e Transaction_create_op
          then True
          else fst ?r = respond 500 ''Server error during transaction''
      | _ \<Rightarrow> True)"
  proof (cases "Campaign_findById e s (tb_campaignId b)")
    case (Inl err)
    with assms show ?thesis by (simp add: transactions_post_def)
  next
    case (Inr co)
    show ?thesis
    proof (cases co)
      case None
      with Inr assms show ?thesis by (simp add: transactions_post_def)
    next
      case (Some c)
      show ?thesis
      proof (cases "Campaign_save e s (add_backing e c (ru_id usr) (tb_amount b))")
        case (Inl err)
        with Inr Some assms show ?thesis by (simp add: transactions_post_def)
      next
        case sv: (Inr s1)
        have t1: "transactions s1 = transactions s"
          using sv by (rule Campaign_save_transactions)
        show ?thesis
        proof (cases "rejects e Transaction_create_op")
          case True
          with sv Inr Some assms t1 show ?thesis
            by (simp add: transactions_post_def Transaction_create_def)
        next
          case False
          let ?s2 = "s1\<lparr>transactions := transactions s1 @ [new_transaction e usr b (c_id c)]\<rparr>"
          show ?thesis
          proof (cases "update_backedCampaigns e ?s2 (ru_id usr) (tb_campaignId b)")
            case (Inl err)
            with False sv Inr Some assms t1 show ?thesis
              by (simp add: transactions_post_def Transaction_create_def)
          next
            case ub: (Inr s3)
            have "transactions s3 = transactions ?s2"
              using update_backedCampaigns_frame [OF ub] by simp
            with ub False sv Inr Some assms t1 show ?thesis
              by (simp add: transactions_post_def Transaction_create_def)
          qed
        qed
      qed
    qed
  qed
  from main st un show ?thesis by simp
qed

theorem transactions_post_created_iff_witness:
  "ru_id asha_token \<noteq> [] \<and>
   Campaign_findById env_up store0 (tb_campaignId (back_well (J_number (Num 200)))) =
     Inr (Some well) \<and>
   transactions (snd (transactions_post env_up store0 (Some asha_token)
       (back_well (J_number (Num 200))))) =
     [new_transaction env_up asha_token (back_well (J_number (Num 200))) well_id] \<and>
   Campaign_findById env_up store0 (tb_campaignId (back_nothing (J_number (Num 200)))) =
     Inr None \<and>
   transactions (snd (transactions_post env_up store0 (Some asha_token)
       (back_nothing (J_number (Num 200))))) = [] \<and>
   fst (transactions_post env_save_rejects store0 (Some asha_token)
       (back_well (J_number (Num 200)))) = respond 500 ''Server error during transaction''"
proof -
  have a: "ru_id asha_token \<noteq> []"
    by (simp add: asha_token_def asha_id_def)
  have nr: "\<not> rejects env_up op" for op by (simp add: env_up_def)
  have l: "Campaign_findById env_up store0 (tb_campaignId (back_well x)) = Inr (Some well)" for x
    by (simp add: back_well_def lookup_well cast_ids nr)
  have n: "Campaign_findById env_up store0 (tb_campaignId (back_nothing x)) = Inr None" for x
  proof -
    have "ravi_id \<noteq> well_id" by (simp add: ravi_id_def well_id_def)
    then show ?thesis
      by (simp add: Campaign_findById_def back_nothing_def cast_ids nr store0_def well_def)
  qed
  have ab: "add_backing env_up well (ru_id asha_token) (tb_amount (back_well (J_number (Num 200)))) =
              Inr (well\<lparr>c_raisedAmount := Some (Num 200), c_supporters := [asha_id]\<rparr>)"
    by (simp add: add_backing_def cast_Number_def js_plus_def or_zero_def back_well_def well_def
        asha_token_def round_double_200 Let_def)
  have sv: "\<exists>s1. Campaign_save env_up store0
              (add_backing env_up well (ru_id asha_token)
                 (tb_amount (back_well (J_number (Num 200))))) = Inr s1"
    by (simp add: ab Campaign_save_def nr)
  have l': "Campaign_findById env_save_rejects store0 (tb_campaignId (back_well x)) =
              Inr (Some well)" for x
    by (simp add: back_well_def lookup_well cast_ids cast_ids_save_rejects)
  have sv': "\<not> (\<exists>s1. Campaign_save env_save_rejects store0 d = Inr s1)" for d
    by (cases d) (simp_all add: Campaign_save_def cast_ids_save_rejects)
  have w: "c_id well = well_id" by (simp add: well_def)
  from transactions_post_created_iff [OF a, of env_up store0 "back_well (J_number (Num 200))"]
       transactions_post_created_iff [OF a, of env_up store0 "back_nothing (J_number (Num 200))"]
       transactions_post_created_iff [OF a, of env_save_rejects store0
          "back_well (J_number (Num 200))"]
       l n l' sv sv' nr a w
  show ?thesis by (simp add: store0_def)
qed

text \<open>
  The lookup returns the campaign, \<^verbatim>\<open>campaign.save()\<close> rejects, the handler answers 500 and
  no Transaction exists afterwards.
\<close>

theorem save_rejected_counterexample:
  "Campaign_findById env_save_rejects store0 (tb_campaignId (back_well (J_number (Num 200)))) =
     Inr (Some well) \<and>
   fst (transactions_post env_save_rejects store0 (Some asha_token)
       (back_well (J_number (Num 200)))) = respond 500 ''Server error during transaction'' \<and>
   transactions (snd (transactions_post env_save_rejects store0 (Some asha_token)
       (back_well (J_number (Num 200))))) = []"
proof -
  have l: "Campaign_findById env_save_rejects store0 well_id = Inr (Some well)"
    by (simp add: lookup_well cast_ids cast_ids_save_rejects)
  have sv: "Campaign_save env_save_rejects s d =
              Inl (case d of Inl x \<Rightarrow> ValidationError | Inr c \<Rightarrow> StoreError)" for d s
    by (cases d) (simp_all add: Campaign_save_def cast_ids_save_rejects)
  have "transactions store0 = []" by (simp add: store0_def)
  with l show ?thesis
    by (simp add: transactions_post_def back_well_def sv asha_token_def asha_id_def)
qed






section \<open>Registration and login\<close>

text \<open>
  Claim C5, as the handler has it. A registration whose role is absent or is not one of
  \<^verbatim>\<open>backer\<close>, \<^verbatim>\<open>campaignOwner\<close> never creates a user. Its answer is 400 exactly when the
  lookup by email does not reject and either the email is already registered or the
  password is a string; otherwise (the lookup rejects, or the email is fresh and the
  password is absent, so that hashing fails before the role is looked at) it is 500
  \<^verbatim>\<open>Server error\<close>.
\<close>

theorem register_role_outside_allowed:
  assumes "rb_role b \<notin> Some ` set allowedRoles"
  shows "snd (register e s b) = s \<and>
         (status (fst (register e s b)) = 400 \<longleftrightarrow>
            \<not> rejects e User_findOne_op \<and>
            (rb_email b \<in> u_email ` set (users s) \<or> rb_password b \<noteq> None)) \<and>
         (status (fst (register e s b)) \<noteq> 400 \<longrightarrow>
            fst (register e s b) = respond 500 ''Server error'')"
proof (cases "rejects e User_findOne_op")
  case True
  then show ?thesis by (simp add: register_def User_findOne_def respond_def)
next
  case False
  show ?thesis
  proof (cases "find (\<lambda>u. u_email u = rb_email b) (users s)")
    case (Some u)
    then have "rb_email b \<in> u_email ` set (users s)"
      using find_None_image [of u_email "rb_email b" "users s"] by auto
    with Some False show ?thesis by (simp add: register_def User_findOne_def respond_def)
  next
    case None
    then have fresh: "rb_email b \<notin> u_email ` set (users s)"
      by (simp add: find_None_image)
    show ?thesis
    proof (cases "rb_password b")
      case np: None
      with None False fresh show ?thesis
        by (simp add: register_def User_findOne_def bcrypt_hash_def respond_def)
    next
      case (Some p)
      with None False assms show ?thesis
        by (auto simp: register_def User_findOne_def bcrypt_hash_def respond_def
            split: option.splits)
    qed
  qed
qed

theorem register_role_outside_allowed_witness:
  "rb_role admin_no_password \<notin> Some ` set allowedRoles \<and>
   snd (register env_up store0 admin_no_password) = store0 \<and>
   fst (register env_up store0 admin_no_password) = respond 500 ''Server error'' \<and>
   rb_role admin_with_password \<notin> Some ` set allowedRoles \<and>
   \<not> rejects env_up User_findOne_op \<and> rb_password admin_with_password \<noteq> None \<and>
   snd (register env_up store0 admin_with_password) = store0 \<and>
   status (fst (register env_up store0 admin_with_password)) = 400"
proof -
  have h: "rb_role admin_no_password \<notin> Some ` set allowedRoles"
    by (auto simp: admin_no_password_def allowedRoles_def)
  have n: "status (fst (register env_up store0 admin_no_password)) \<noteq> 400"
    by (simp add: register_def User_findOne_def bcrypt_hash_def respond_def env_up_def
        store0_def admin_no_password_def asha_def ravi_def)
  have h': "rb_role admin_with_password \<notin> Some ` set allowedRoles"
    by (auto simp: admin_with_password_def allowedRoles_def)
  have p: "\<not> rejects env_up User_findOne_op" "rb_password admin_with_password \<noteq> None"
    by (simp_all add: env_up_def admin_with_password_def)
  from register_role_outside_allowed [OF h, of env_up store0]
       register_role_outside_allowed [OF h', of env_up store0] h n h' p
  show ?thesis by simp
qed

text \<open>
  Role \<^verbatim>\<open>admin\<close>, a fresh email and no password: the answer is 500, not 400.
\<close>

theorem role_outside_allowed_500_counterexample:
  "rb_role admin_no_password = Some ''admin'' \<and> ''admin'' \<notin> set allowedRoles \<and>
   rb_password admin_no_password = None \<and>
   status (fst (register env_up store0 admin_no_password)) = 500 \<and>
   status (fst (register env_up store0 admin_no_password)) \<noteq> 400"
  by (simp add: register_def User_findOne_def bcrypt_hash_def respond_def env_up_def
      store0_def admin_no_password_def asha_def ravi_def allowedRoles_def)

text \<open>
  Claim C9. Registration does not check that the fields are present. With a fresh email and
  no password, hashing fails and the answer is 500 \<^verbatim>\<open>Server error\<close>, whatever the role. A
  400 is only ever the answer to a registered email or to a role outside the allowed ones.
  A request without username, with a password, an allowed role and a fresh email is
  registered when the store answers.
\<close>

theorem register_no_presence_checks:
  "(rb_password b = None \<and> rb_email b \<notin> u_email ` set (users s) \<longrightarrow>
      bcrypt_hash e (rb_password b) = Inl IllegalArguments \<and>
      register e s b = (respond 500 ''Server error'', s)) \<and>
   (status (fst (register e s b)) = 400 \<longrightarrow>
      rb_email b \<in> u_email ` set (users s) \<or> rb_role b \<notin> Some ` set allowedRoles) \<and>
   (rb_username b = None \<and> rb_password b \<noteq> None \<and> rb_role b \<in> Some ` set allowedRoles \<and>
    rb_email b \<notin> u_email ` set (users s) \<and> store_up e \<longrightarrow>
      status (fst (register e s b)) = 201)"
proof -
  have a: "bcrypt_hash e (rb_password b) = Inl IllegalArguments \<and>
           register e s b = (respond 500 ''Server error'', s)"
    if "rb_password b = None" "rb_email b \<notin> u_email ` set (users s)"
  proof -
    from that(2) have "find (\<lambda>u. u_email u = rb_email b) (users s) = None"
      by (simp add: find_None_image)
    with that(1) show ?thesis
      by (simp add: register_def User_findOne_def bcrypt_hash_def)
  qed
  have b: "rb_email b \<in> u_email ` set (users s) \<or> rb_role b \<notin> Some ` set allowedRoles"
    if "status (fst (register e s b)) = 400"
  proof (rule ccontr)
    assume "\<not> ?thesis"
    then have f: "find (\<lambda>u. u_email u = rb_email b) (users s) = None"
      and r: "rb_role b \<in> Some ` set allowedRoles"
      by (simp_all add: find_None_image)
    from r obtain role where "rb_role b = Some role" "role \<in> set allowedRoles" by auto
    with f that show False
      by (auto simp: register_def User_findOne_def bcrypt_hash_def User_create_def respond_def
          split: if_splits option.splits)
  qed
  have c: "status (fst (register e s b)) = 201"
    if "rb_password b \<noteq> None" "rb_role b \<in> Some ` set allowedRoles"
      "rb_email b \<notin> u_email ` set (users s)" "store_up e"
  proof -
    from that(3) have f: "find (\<lambda>u. u_email u = rb_email b) (users s) = None"
      by (simp add: find_None_image)
    from that(2) obtain role where "rb_role b = Some role" "role \<in> set allowedRoles" by auto
    with f that(1,4) show ?thesis
      by (auto simp: register_def User_findOne_def bcrypt_hash_def User_create_def store_up_op)
  qed
  from a b c show ?thesis by blast
qed

theorem register_no_presence_checks_witness:
  "rb_password backer_no_password = None \<and> rb_role backer_no_password = Some ''backer'' \<and>
   rb_email backer_no_password \<notin> u_email ` set (users store0) \<and>
   register env_up store0 backer_no_password = (respond 500 ''Server error'', store0) \<and>
   rb_username backer_no_username = None \<and> rb_password backer_no_username \<noteq> None \<and>
   rb_role backer_no_username \<in> Some ` set allowedRoles \<and>
   rb_email backer_no_username \<notin> u_email ` set (users store0) \<and> store_up env_up \<and>
   status (fst (register env_up store0 backer_no_username)) = 201"
proof -
  have h1: "rb_password backer_no_password = None" "rb_role backer_no_password = Some ''backer''"
    by (simp_all add: backer_no_password_def)
  have h2: "rb_email backer_no_password \<notin> u_email ` set (users store0)"
    by (simp add: backer_no_password_def store0_def asha_def ravi_def)
  have h3: "rb_username backer_no_username = None" "rb_password backer_no_username \<noteq> None"
    "rb_role backer_no_username \<in> Some ` set allowedRoles"
    "rb_email backer_no_username \<notin> u_email ` set (users store0)"
    by (simp_all add: backer_no_username_def allowedRoles_def store0_def asha_def ravi_def)
  from register_no_presence_checks [of backer_no_password store0 env_up]
       register_no_presence_checks [of backer_no_username store0 env_up]
       h1 h2 h3 store_up_env_up
  show ?thesis by simp
qed

text \<open>
  Claim C7. A login for which no user has the email, and a login whose password does not
  match the stored hash, get the same answer, status 400 with the message
  \<^verbatim>\<open>Invalid email or password\<close>, in any two states, and change nothing.
\<close>

theorem login_failures_indistinguishable:
  assumes "\<not> rejects e1 User_findOne_op" and "\<not> rejects e2 User_findOne_op"
    and "lb_email b1 \<notin> u_email ` set (users s1)"
    and "find (\<lambda>u. u_email u = lb_email b2) (users s2) = Some u"
    and "bcrypt_compare e2 (lb_password b2) (u_password u) = Inr False"
  shows "fst (login e1 s1 b1) = respond 400 ''Invalid email or password'' \<and>
         fst (login e2 s2 b2) = respond 400 ''Invalid email or password'' \<and>
         fst (login e1 s1 b1) = fst (login e2 s2 b2) \<and>
         snd (login e1 s1 b1) = s1 \<and> snd (login e2 s2 b2) = s2"
proof -
  from assms(3) have "find (\<lambda>u. u_email u = lb_email b1) (users s1) = None"
    by (simp add: find_None_image)
  with assms show ?thesis
    by (simp add: login_def User_findOne_def)
qed

theorem login_failures_indistinguishable_witness:
  "lb_email nobody_login \<notin> u_email ` set (users store0) \<and>
   find (\<lambda>u. u_email u = lb_email asha_wrong_login) (users store0) = Some asha \<and>
   bcrypt_compare env_up (lb_password asha_wrong_login) (u_password asha) = Inr False \<and>
   fst (login env_up store0 nobody_login) = fst (login env_up store0 asha_wrong_login) \<and>
   fst (login env_up store0 nobody_login) = respond 400 ''Invalid email or password''"
proof -
  have h1: "\<not> rejects env_up User_findOne_op" by (simp add: env_up_def)
  have h2: "lb_email nobody_login \<notin> u_email ` set (users store0)"
    by (simp add: nobody_login_def store0_def asha_def ravi_def)
  have h3: "find (\<lambda>u. u_email u = lb_email asha_wrong_login) (users store0) = Some asha"
    by (simp add: asha_wrong_login_def store0_def asha_def)
  have h4: "bcrypt_compare env_up (lb_password asha_wrong_login) (u_password asha) = Inr False"
    by (simp add: bcrypt_compare_def env_up_def asha_wrong_login_def asha_def)
  from login_failures_indistinguishable [OF h1 h1 h2 h3 h4] h2 h3 h4
  show ?thesis by simp
qed

section \<open>Campaign creation\<close>

text \<open>
  Claim C3, as the handlers have it. A registration whose email is already present is
  answered with status 400 and the message \<^verbatim>\<open>Email already registered\<close>; a campaign whose
  title the same owner already uses, from a permitted role with all required fields and a
  deadline that passes the check, is answered with status 409. Neither changes the state.
\<close>

theorem duplicate_email_400_duplicate_title_409:
  "(\<not> rejects e User_findOne_op \<and> rb_email b \<in> u_email ` set (users s) \<longrightarrow>
      register e s b = (respond 400 ''Email already registered'', s)) \<and>
   (ru_role ru \<in> set [''campaignOwner'', ''admin''] \<and>
    required_fields cb = Some (title, description, goalAmount, deadline, img) \<and>
    \<not> invalid_or_past e deadline \<and> objectid_cast e (ru_id ru) = Some j \<and>
    \<not> rejects e Campaign_findOne_op \<and>
    find (\<lambda>c. c_title c = title \<and> c_owner c = j) (campaigns s) \<noteq> None \<longrightarrow>
      campaigns_post e s ru cb = (respond 409 ''Campaign with this title already exists'', s))"
proof -
  have a: "register e s b = (respond 400 ''Email already registered'', s)"
    if "\<not> rejects e User_findOne_op" "rb_email b \<in> u_email ` set (users s)"
  proof -
    from find_Some_ex [OF that(2)] obtain u
      where "find (\<lambda>u. u_email u = rb_email b) (users s) = Some u" by blast
    with that(1) show ?thesis by (simp add: register_def User_findOne_def)
  qed
  have b: "campaigns_post e s ru cb = (respond 409 ''Campaign with this title already exists'', s)"
    if "ru_role ru \<in> set [''campaignOwner'', ''admin'']"
      "required_fields cb = Some (title, description, goalAmount, deadline, img)"
      "\<not> invalid_or_past e deadline" "objectid_cast e (ru_id ru) = Some j"
      "\<not> rejects e Campaign_findOne_op"
      "find (\<lambda>c. c_title c = title \<and> c_owner c = j) (campaigns s) \<noteq> None"
    using that by (auto simp: campaigns_post_def Campaign_findOne_def)
  from a b show ?thesis by blast
qed

theorem duplicate_email_400_duplicate_title_409_witness:
  "\<not> rejects env_up User_findOne_op \<and> rb_email asha_again \<in> u_email ` set (users store0) \<and>
   register env_up store0 asha_again = (respond 400 ''Email already registered'', store0) \<and>
   ru_role ravi_token \<in> set [''campaignOwner'', ''admin''] \<and>
   required_fields well_again =
     Some (''Village well'', ''Another well'', 500, ''2030-01-01T00:00:00.000Z'', ''w.png'') \<and>
   campaigns_post env_up store0 ravi_token well_again =
     (respond 409 ''Campaign with this title already exists'', store0)"
proof -
  have h1: "\<not> rejects env_up User_findOne_op" by (simp add: env_up_def)
  have h2: "rb_email asha_again \<in> u_email ` set (users store0)"
    by (simp add: asha_again_def store0_def asha_def)
  have h3: "ru_role ravi_token \<in> set [''campaignOwner'', ''admin'']"
    by (simp add: ravi_token_def)
  have h4: "required_fields well_again =
     Some (''Village well'', ''Another well'', 500, ''2030-01-01T00:00:00.000Z'', ''w.png'')"
    by (simp add: required_fields_def well_again_def)
  have h5: "\<not> invalid_or_past env_up ''2030-01-01T00:00:00.000Z''"
    by (simp add: invalid_or_past_def env_up_def)
  have h6: "objectid_cast env_up (ru_id ravi_token) = Some ravi_id"
    by (simp add: ravi_token_def cast_ids)
  have h7: "\<not> rejects env_up Campaign_findOne_op" by (simp add: env_up_def)
  have h8: "find (\<lambda>c. c_title c = ''Village well'' \<and> c_owner c = ravi_id)
              (campaigns store0) \<noteq> None"
    by (simp add: store0_def well_def)
  from duplicate_email_400_duplicate_title_409
         [of env_up asha_again store0 ravi_token well_again "''Village well''" "''Another well''"
             500 "''2030-01-01T00:00:00.000Z''" "''w.png''" ravi_id]
       h1 h2 h3 h4 h5 h6 h7 h8
  show ?thesis by auto
qed

text \<open>
  The email of the request is registered; the answer has status 400, not 409.
\<close>

theorem duplicate_email_not_409_counterexample:
  "rb_email asha_again \<in> u_email ` set (users store0) \<and>
   status (fst (register env_up store0 asha_again)) = 400 \<and>
   status (fst (register env_up store0 asha_again)) \<noteq> 409"
  by (simp add: register_def User_findOne_def respond_def env_up_def store0_def asha_again_def
      asha_def)

text \<open>
  Claim C4, as the handler has it. For a caller with a permitted role and all required
  fields, a deadline that does not parse, or that lies strictly before the current time,
  is answered with 400 \<^verbatim>\<open>Invalid or past deadline\<close>. A deadline that parses to the current
  time or later is not: the comparison is \<^verbatim>\<open>deadlineDate < new Date()\<close>. With the deadline
  equal to the current time, a store that answers and a title the owner has not used, the
  campaign is created.
\<close>

theorem deadline_check:
  assumes "ru_role ru \<in> set [''campaignOwner'', ''admin'']"
    and "required_fields b = Some (title, description, goalAmount, deadline, img)"
  shows "(date_parse e deadline = None \<or> (\<exists>d. date_parse e deadline = Some d \<and> d < date_now e)
            \<longrightarrow> campaigns_post e s ru b = (respond 400 ''Invalid or past deadline'', s)) \<and>
         (\<forall>d. date_parse e deadline = Some d \<and> date_now e \<le> d
            \<longrightarrow> fst (campaigns_post e s ru b) \<noteq> respond 400 ''Invalid or past deadline'') \<and>
         (date_parse e deadline = Some (date_now e) \<and> store_up e \<and>
          objectid_cast e (ru_id ru) = Some j \<and>
          find (\<lambda>c. c_title c = title \<and> c_owner c = j) (campaigns s) = None
            \<longrightarrow> status (fst (campaigns_post e s ru b)) = 201 \<and>
                length (campaigns (snd (campaigns_post e s ru b))) = Suc (length (campaigns s)))"
  using assms
  by (auto simp: campaigns_post_def invalid_or_past_def Campaign_findOne_def Campaign_create_def
      store_up_op respond_def split: option.splits sum.splits)

theorem deadline_check_witness:
  "ru_role ravi_token \<in> set [''campaignOwner'', ''admin''] \<and>
   required_fields pump =
     Some (''Hand pump'', ''A pump'', 300, ''2030-01-01T00:00:00.000Z'', ''pump.png'') \<and>
   date_parse env_after_deadline ''2030-01-01T00:00:00.000Z'' = Some 1893456000000 \<and>
   1893456000000 < date_now env_after_deadline \<and>
   campaigns_post env_after_deadline store0 ravi_token pump =
     (respond 400 ''Invalid or past deadline'', store0) \<and>
   date_parse env_at_deadline ''2030-01-01T00:00:00.000Z'' = Some (date_now env_at_deadline) \<and>
   store_up env_at_deadline \<and> objectid_cast env_at_deadline (ru_id ravi_token) = Some ravi_id \<and>
   find (\<lambda>c. c_title c = ''Hand pump'' \<and> c_owner c = ravi_id) (campaigns store0) = None \<and>
   status (fst (campaigns_post env_at_deadline store0 ravi_token pump)) = 201"
proof -
  have h1: "ru_role ravi_token \<in> set [''campaignOwner'', ''admin'']"
    by (simp add: ravi_token_def)
  have h2: "required_fields pump =
     Some (''Hand pump'', ''A pump'', 300, ''2030-01-01T00:00:00.000Z'', ''pump.png'')"
    by (simp add: required_fields_def pump_def)
  have h3: "date_parse env_after_deadline ''2030-01-01T00:00:00.000Z'' = Some 1893456000000"
    by (simp add: env_after_deadline_def env_up_def)
  have h4: "1893456000000 < date_now env_after_deadline"
    by (simp add: env_after_deadline_def env_up_def)
  have h5: "date_parse env_at_deadline ''2030-01-01T00:00:00.000Z'' =
              Some (date_now env_at_deadline)"
    by (simp add: env_at_deadline_def env_up_def)
  have h6: "store_up env_at_deadline"
    by (simp add: store_up_def store_ops_def env_at_deadline_def env_up_def)
  have h7: "objectid_cast env_at_deadline (ru_id ravi_token) = Some ravi_id"
    using cast_ids(2) by (simp add: env_at_deadline_def ravi_token_def)
  have h8: "find (\<lambda>c. c_title c = ''Hand pump'' \<and> c_owner c = ravi_id)
              (campaigns store0) = None"
    by (simp add: store0_def well_def)
  from deadline_check [OF h1 h2, of env_after_deadline store0]
       deadline_check [OF h1 h2, of env_at_deadline store0 ravi_id] h1 h2 h3 h4 h5 h6 h7 h8
  show ?thesis by auto
qed

text \<open>
  The deadline parses to the current time; the campaign is created with status 201.
\<close>

theorem deadline_now_accepted_counterexample:
  "date_parse env_at_deadline ''2030-01-01T00:00:00.000Z'' = Some (date_now env_at_deadline) \<and>
   cb_deadline pump = Some ''2030-01-01T00:00:00.000Z'' \<and>
   status (fst (campaigns_post env_at_deadline store0 ravi_token pump)) = 201 \<and>
   length (campaigns (snd (campaigns_post env_at_deadline store0 ravi_token pump))) = 2"
proof -
  have p: "date_parse env_at_deadline ''2030-01-01T00:00:00.000Z'' = Some (date_now env_at_deadline)"
    by (simp add: env_at_deadline_def env_up_def)
  have nr: "\<not> rejects env_at_deadline op" for op
    by (simp add: env_at_deadline_def env_up_def)
  have c: "objectid_cast env_at_deadline ravi_id = Some ravi_id"
    using cast_ids(2) by (simp add: env_at_deadline_def)
  have ru: "ru_id ravi_token = ravi_id" "ru_role ravi_token = ''campaignOwner''"
    by (simp_all add: ravi_token_def)
  have rq: "required_fields pump =
     Some (''Hand pump'', ''A pump'', 300, ''2030-01-01T00:00:00.000Z'', ''pump.png'')"
    "cb_deadline pump = Some ''2030-01-01T00:00:00.000Z''"
    by (simp_all add: required_fields_def pump_def)
  have f: "find (\<lambda>c. c_title c = ''Hand pump'' \<and> c_owner c = ravi_id) (campaigns store0) = None"
    "length (campaigns store0) = 1"
    by (simp_all add: store0_def well_def)
  show ?thesis
    by (simp add: campaigns_post_def invalid_or_past_def Campaign_findOne_def
        Campaign_create_def p nr c ru rq f)
qed

section \<open>Deletion and retrieval\<close>

text \<open>
  Claim C6. \<^verbatim>\<open>DELETE /admin/campaigns/:id\<close> leaves the transactions and the users as they
  are, and the campaigns either as they are or without the campaign whose id the string
  casts to; for an admin, a well-formed id and a store that answers, exactly that campaign
  is removed. \<^verbatim>\<open>DELETE /admin/users/:id\<close> likewise leaves the transactions and the
  campaigns as they are.
\<close>

theorem admin_delete_no_cascade:
  "transactions (snd (admin_campaigns_delete e s ru i)) = transactions s \<and>
   users (snd (admin_campaigns_delete e s ru i)) = users s \<and>
   (campaigns (snd (admin_campaigns_delete e s ru i)) = campaigns s \<or>
    campaigns (snd (admin_campaigns_delete e s ru i)) =
      filter (\<lambda>c. objectid_cast e i \<noteq> Some (c_id c)) (campaigns s)) \<and>
   (ru_role ru = ''admin'' \<and> objectid_cast e i = Some j \<and>
    \<not> rejects e Campaign_findByIdAndDelete_op
      \<longrightarrow> admin_campaigns_delete e s ru i =
            (respond 200 ''Campaign deleted'',
             s\<lparr>campaigns := filter (\<lambda>c. c_id c \<noteq> j) (campaigns s)\<rparr>)) \<and>
   transactions (snd (admin_users_delete e s ru i)) = transactions s \<and>
   campaigns (snd (admin_users_delete e s ru i)) = campaigns s \<and>
   (ru_role ru = ''admin'' \<and> objectid_cast e i = Some j \<and>
    \<not> rejects e User_findByIdAndDelete_op
      \<longrightarrow> admin_users_delete e s ru i =
            (respond 200 ''User deleted'', s\<lparr>users := filter (\<lambda>u. u_id u \<noteq> j) (users s)\<rparr>))"
proof -
  have f: "filter (\<lambda>c. c_id c \<noteq> k) xs = filter (\<lambda>c. Some k \<noteq> Some (c_id c)) xs" for k xs
    by (rule filter_cong) auto
  show ?thesis
    by (cases "objectid_cast e i")
       (auto simp: admin_campaigns_delete_def admin_users_delete_def
          Campaign_findByIdAndDelete_def User_findByIdAndDelete_def f)
qed

theorem admin_delete_no_cascade_witness:
  "ru_role admin_token = ''admin'' \<and> objectid_cast env_up well_id = Some well_id \<and>
   objectid_cast env_up asha_id = Some asha_id \<and>
   campaigns (snd (admin_campaigns_delete env_up store1 admin_token well_id)) = [] \<and>
   transactions (snd (admin_campaigns_delete env_up store1 admin_token well_id)) = [tx1] \<and>
   t_campaign tx1 = well_id \<and>
   users (snd (admin_users_delete env_up store1 admin_token asha_id)) = [ravi] \<and>
   transactions (snd (admin_users_delete env_up store1 admin_token asha_id)) = [tx1] \<and>
   t_user tx1 = asha_id"
proof -
  have h: "ru_role admin_token = ''admin''"
    "\<not> rejects env_up Campaign_findByIdAndDelete_op" "\<not> rejects env_up User_findByIdAndDelete_op"
    by (simp_all add: admin_token_def env_up_def)
  have d: "filter (\<lambda>c. c_id c \<noteq> well_id) (campaigns store1) = []"
    "filter (\<lambda>u. u_id u \<noteq> asha_id) (users store1) = [ravi]"
    "transactions store1 = [tx1]" "t_campaign tx1 = well_id" "t_user tx1 = asha_id"
    by (simp_all add: store1_def well_def asha_def ravi_def tx1_def asha_id_def ravi_id_def)
  from admin_delete_no_cascade [of env_up store1 admin_token well_id well_id]
       admin_delete_no_cascade [of env_up store1 admin_token asha_id asha_id] h d cast_ids
  show ?thesis by simp
qed

text \<open>
  Claim C10, as the handlers have it. For an id that is not well-formed,
  \<^verbatim>\<open>GET /campaigns/:id/transactions\<close> answers 500 \<^verbatim>\<open>Failed to fetch transactions\<close> where
  \<^verbatim>\<open>GET /campaigns/:id\<close> answers 400 \<^verbatim>\<open>Invalid campaign ID format\<close>. For a well-formed
  id, when the query does not reject, it answers 200 with the transactions that reference
  the ObjectId the string casts to, whether or not a campaign has that id: the list is
  empty exactly when no transaction references it. \<^verbatim>\<open>GET /campaigns/:id\<close> answers 404
  when no campaign has the id.
\<close>

theorem campaign_transactions_id_unvalidated:
  "(objectid_cast e i = None \<longrightarrow>
      campaigns_id_transactions_get e s i = respond 500 ''Failed to fetch transactions'' \<and>
      campaigns_id_get e s i = respond 400 ''Invalid campaign ID format'') \<and>
   (objectid_cast e i = Some j \<and> \<not> rejects e Transaction_find_op \<longrightarrow>
      status (campaigns_id_transactions_get e s i) = 200 \<and>
      (\<exists>docs. body (campaigns_id_transactions_get e s i) = Transaction_docs docs \<and>
         set (map fst docs) = {t \<in> set (transactions s). t_campaign t = j} \<and>
         length docs = length (transactions_of s j)) \<and>
      (body (campaigns_id_transactions_get e s i) = Transaction_docs [] \<longleftrightarrow>
         j \<notin> t_campaign ` set (transactions s))) \<and>
   (objectid_cast e i = Some j \<and> \<not> rejects e Campaign_findById_op \<and>
    j \<notin> c_id ` set (campaigns s) \<longrightarrow>
      campaigns_id_get e s i = respond 404 ''Campaign not found'')"
proof -
  have a: "campaigns_id_transactions_get e s i = respond 500 ''Failed to fetch transactions'' \<and>
           campaigns_id_get e s i = respond 400 ''Invalid campaign ID format''"
    if "objectid_cast e i = None"
    using that
    by (simp add: campaigns_id_transactions_get_def campaigns_id_get_def Transaction_find_def
        objectid_isValid_def)
  have b: "status (campaigns_id_transactions_get e s i) = 200 \<and>
      (\<exists>docs. body (campaigns_id_transactions_get e s i) = Transaction_docs docs \<and>
         set (map fst docs) = {t \<in> set (transactions s). t_campaign t = j} \<and>
         length docs = length (transactions_of s j)) \<and>
      (body (campaigns_id_transactions_get e s i) = Transaction_docs [] \<longleftrightarrow>
         j \<notin> t_campaign ` set (transactions s))"
    if "objectid_cast e i = Some j" "\<not> rejects e Transaction_find_op"
  proof -
    let ?ts = "sort_key (\<lambda>t. - t_createdAt t) (filter (\<lambda>t. t_campaign t = j) (transactions s))"
    have r: "campaigns_id_transactions_get e s i =
               \<lparr>status = 200, body = Transaction_docs (map (\<lambda>t. (t, populate_user s t)) ?ts),
                cookie = None\<rparr>"
      using that by (simp add: campaigns_id_transactions_get_def Transaction_find_def)
    have m: "map fst (map (\<lambda>t. (t, populate_user s t)) ?ts) = ?ts"
      by (simp add: comp_def)
    have e: "?ts = [] \<longleftrightarrow> j \<notin> t_campaign ` set (transactions s)"
    proof -
      have "?ts = [] \<longleftrightarrow> set ?ts = {}" by (simp only: set_empty)
      also have "\<dots> \<longleftrightarrow> j \<notin> t_campaign ` set (transactions s)" by auto
      finally show ?thesis .
    qed
    have s1: "set ?ts = {t \<in> set (transactions s). t_campaign t = j}" by auto
    have l: "length ?ts = length (transactions_of s j)" by (simp add: transactions_of_def)
    show ?thesis
      unfolding r using m e s1 l by (simp del: set_map)
  qed
  have c: "campaigns_id_get e s i = respond 404 ''Campaign not found''"
    if "objectid_cast e i = Some j" "\<not> rejects e Campaign_findById_op"
      "j \<notin> c_id ` set (campaigns s)"
  proof -
    from that(3) have "find (\<lambda>c. c_id c = j) (campaigns s) = None" by (simp add: find_None_image)
    with that(1,2) show ?thesis
      by (simp add: campaigns_id_get_def Campaign_findById_def objectid_isValid_def)
  qed
  from a b c show ?thesis by blast
qed

theorem campaign_transactions_id_unvalidated_witness:
  "objectid_cast env_up ''not-an-id'' = None \<and>
   campaigns_id_transactions_get env_up store1 ''not-an-id'' =
     respond 500 ''Failed to fetch transactions'' \<and>
   campaigns_id_get env_up store1 ''not-an-id'' = respond 400 ''Invalid campaign ID format'' \<and>
   objectid_cast env_up ravi_id = Some ravi_id \<and> \<not> rejects env_up Transaction_find_op \<and>
   \<not> rejects env_up Campaign_findById_op \<and> ravi_id \<notin> c_id ` set (campaigns store1) \<and>
   ravi_id \<notin> t_campaign ` set (transactions store1) \<and>
   status (campaigns_id_transactions_get env_up store1 ravi_id) = 200 \<and>
   body (campaigns_id_transactions_get env_up store1 ravi_id) = Transaction_docs [] \<and>
   campaigns_id_get env_up store1 ravi_id = respond 404 ''Campaign not found'' \<and>
   objectid_cast env_up well_id_upper = Some well_id \<and>
   body (campaigns_id_transactions_get env_up store1 well_id_upper) =
     Transaction_docs [(tx1, Some (Some ''asha''))]"
proof -
  have h1: "objectid_cast env_up ''not-an-id'' = None" by (simp add: env_up_def hex24_def)
  have nr: "\<not> rejects env_up op" for op by (simp add: env_up_def)
  have h3: "ravi_id \<notin> c_id ` set (campaigns store1)"
    "ravi_id \<notin> t_campaign ` set (transactions store1)"
    by (simp_all add: store1_def well_def tx1_def ravi_id_def well_id_def)
  have up: "body (campaigns_id_transactions_get env_up store1 well_id_upper) =
              Transaction_docs [(tx1, Some (Some ''asha''))]"
    by (simp add: store1_transactions_get [OF cast_ids(4) refl refl])
  from campaign_transactions_id_unvalidated [of env_up "''not-an-id''" store1 well_id]
       campaign_transactions_id_unvalidated [of env_up ravi_id store1 ravi_id]
       h1 cast_ids nr h3 up
  show ?thesis by simp
qed

text \<open>
  The campaign was deleted and its transaction stays: for its id, which is well-formed and
  which no campaign has, \<^verbatim>\<open>GET /campaigns/:id\<close> answers 404 and
  \<^verbatim>\<open>GET /campaigns/:id/transactions\<close> answers 200 with that transaction, not with the
  empty list.
\<close>

theorem orphaned_transactions_listed_counterexample:
  "snd (admin_campaigns_delete env_up store1 admin_token well_id) = store_orphan \<and>
   objectid_cast env_up well_id = Some well_id \<and>
   well_id \<notin> c_id ` set (campaigns store_orphan) \<and>
   campaigns_id_get env_up store_orphan well_id = respond 404 ''Campaign not found'' \<and>
   status (campaigns_id_transactions_get env_up store_orphan well_id) = 200 \<and>
   body (campaigns_id_transactions_get env_up store_orphan well_id) =
     Transaction_docs [(tx1, Some (Some ''asha''))] \<and>
   body (campaigns_id_transactions_get env_up store_orphan well_id) \<noteq> Transaction_docs []"
proof -
  have nr: "\<not> rejects env_up op" for op by (simp add: env_up_def)
  have g: "campaigns_id_get env_up store_orphan well_id = respond 404 ''Campaign not found''"
    by (simp add: campaigns_id_get_def Campaign_findById_def objectid_isValid_def cast_ids nr
        store_orphan_def)
  have t: "campaigns_id_transactions_get env_up store_orphan well_id =
             \<lparr>status = 200, body = Transaction_docs [(tx1, Some (Some ''asha''))], cookie = None\<rparr>"
    by (rule store1_transactions_get [OF cast_ids(3)]) (simp_all add: store_orphan_def)
  have c: "well_id \<notin> c_id ` set (campaigns store_orphan)" by (simp add: store_orphan_def)
  have d: "snd (admin_campaigns_delete env_up store1 admin_token well_id) = store_orphan"
  proof -
    have "filter (\<lambda>c. c_id c \<noteq> well_id) (campaigns store1) = []"
      by (simp add: store1_def well_def)
    then show ?thesis
      by (simp add: admin_campaigns_delete_def Campaign_findByIdAndDelete_def cast_ids nr
          admin_token_def store_orphan_def)
  qed
  from g t c d cast_ids(3) show ?thesis by simp
qed

end
